theory Spec2Isabelle
  imports Complex_Main
begin

section \<open>JavaScript numbers\<close>

text \<open>
  The calculator computes on JavaScript numbers. A number is modelled as a finite value or
  one of the three special values of IEEE 754 that the arithmetic of the source can
  produce: the two infinities and not-a-number. Inside \<open>calculateRetirement\<close> finite
  values are exact reals: the rounding of each operation to binary64 and the overflow of
  a finite result beyond about 1.8e308 are not modelled there. The code therefore leaves
  the finite numbers on more inputs than the model does: its real rate is also zero for
  two rates that differ in their last bits only, and its powers overflow to \<open>Infinity\<close>.
  The module constant \<open>STATE_PENSION_ANNUAL\<close>, a closed expression, has its binary64
  value, by \<open>binary64\<close> below, since amounts are compared with it to the last bit.
  The sign of zero is not tracked. Every divisor of the source that can be zero is a
  positive zero there (a sum with the literal 1, or the difference of two equal values),
  so a division by zero takes the sign of its numerator, as written in \<open>num_div\<close>.
\<close>

datatype number = Fin real | PInf | NInf | NaN

definition sgn_inf :: "real \<Rightarrow> number" where
  "sgn_inf x = (if 0 < x then PInf else if x < 0 then NInf else NaN)"

text \<open>
  Rounding to binary64, to nearest with ties to even: 53 significant bits at the binary
  exponent of the value, which lies between -1022 (from there down the numbers are
  subnormal) and 1023; a rounded magnitude of 2 to the 1024 or more is an infinity.
\<close>

definition round_half_even :: "real \<Rightarrow> int" where
  "round_half_even x =
     (if x - of_int \<lfloor>x\<rfloor> < 1 / 2 then \<lfloor>x\<rfloor>
      else if 1 / 2 < x - of_int \<lfloor>x\<rfloor> then \<lfloor>x\<rfloor> + 1
      else if even \<lfloor>x\<rfloor> then \<lfloor>x\<rfloor> else \<lfloor>x\<rfloor> + 1)"

fun exponent_up :: "nat \<Rightarrow> real \<Rightarrow> int" where
  "exponent_up 0 x = 0"
| "exponent_up (Suc k) x = (if x < 2 then 0 else 1 + exponent_up k (x / 2))"

fun exponent_down :: "nat \<Rightarrow> real \<Rightarrow> int" where
  "exponent_down 0 x = 0"
| "exponent_down (Suc k) x = (if 1 \<le> x then 0 else exponent_down k (x * 2) - 1)"

definition binary_exponent :: "real \<Rightarrow> int" where
  "binary_exponent x =
     (if 1 \<le> \<bar>x\<bar> then exponent_up 1023 \<bar>x\<bar> else exponent_down 1022 \<bar>x\<bar>)"

definition binary64 :: "real \<Rightarrow> number" where
  "binary64 x =
     (let u = 2 powi (binary_exponent x - 52);
          y = of_int (round_half_even (x / u)) * u
      in if 2 ^ 1024 \<le> y then PInf else if y \<le> - (2 ^ 1024) then NInf else Fin y)"

definition rounded :: "number \<Rightarrow> number" where
  "rounded a = (case a of Fin x \<Rightarrow> binary64 x | PInf \<Rightarrow> PInf | NInf \<Rightarrow> NInf | NaN \<Rightarrow> NaN)"

fun num_neg :: "number \<Rightarrow> number" where
  "num_neg (Fin x) = Fin (- x)"
| "num_neg PInf = NInf"
| "num_neg NInf = PInf"
| "num_neg NaN = NaN"

fun num_add :: "number \<Rightarrow> number \<Rightarrow> number" where
  "num_add (Fin x) (Fin y) = Fin (x + y)"
| "num_add (Fin x) PInf = PInf"
| "num_add (Fin x) NInf = NInf"
| "num_add PInf (Fin y) = PInf"
| "num_add PInf PInf = PInf"
| "num_add PInf NInf = NaN"
| "num_add NInf (Fin y) = NInf"
| "num_add NInf PInf = NaN"
| "num_add NInf NInf = NInf"
| "num_add NaN b = NaN"
| "num_add a NaN = NaN"

definition num_sub :: "number \<Rightarrow> number \<Rightarrow> number" where
  "num_sub a b = num_add a (num_neg b)"

fun num_mul :: "number \<Rightarrow> number \<Rightarrow> number" where
  "num_mul (Fin x) (Fin y) = Fin (x * y)"
| "num_mul (Fin x) PInf = sgn_inf x"
| "num_mul (Fin x) NInf = sgn_inf (- x)"
| "num_mul PInf (Fin y) = sgn_inf y"
| "num_mul PInf PInf = PInf"
| "num_mul PInf NInf = NInf"
| "num_mul NInf (Fin y) = sgn_inf (- y)"
| "num_mul NInf PInf = NInf"
| "num_mul NInf NInf = PInf"
| "num_mul NaN b = NaN"
| "num_mul a NaN = NaN"

fun num_div :: "number \<Rightarrow> number \<Rightarrow> number" where
  "num_div (Fin x) (Fin y) = (if y = 0 then sgn_inf x else Fin (x / y))"
| "num_div (Fin x) PInf = Fin 0"
| "num_div (Fin x) NInf = Fin 0"
| "num_div PInf (Fin y) = (if 0 \<le> y then PInf else NInf)"
| "num_div NInf (Fin y) = (if 0 \<le> y then NInf else PInf)"
| "num_div PInf PInf = NaN"
| "num_div PInf NInf = NaN"
| "num_div NInf PInf = NaN"
| "num_div NInf NInf = NaN"
| "num_div NaN b = NaN"
| "num_div a NaN = NaN"

text \<open>The comparison \<open>a > b\<close>: false as soon as one side is not-a-number.\<close>

fun num_gt :: "number \<Rightarrow> number \<Rightarrow> bool" where
  "num_gt (Fin x) (Fin y) = (y < x)"
| "num_gt PInf (Fin y) = True"
| "num_gt PInf NInf = True"
| "num_gt (Fin x) NInf = True"
| "num_gt a b = False"

text \<open>
  \<open>Math.pow\<close> with an exponent that is a whole number (the source passes a number of
  years or of months): any base to the power 0 is 1, also not-a-number; a zero base to a
  negative power is \<open>Infinity\<close>.
\<close>

definition Math_pow :: "number \<Rightarrow> int \<Rightarrow> number" where
  "Math_pow b n =
     (if n = 0 then Fin 1
      else case b of
        NaN \<Rightarrow> NaN
      | PInf \<Rightarrow> (if 0 < n then PInf else Fin 0)
      | NInf \<Rightarrow> (if 0 < n then (if odd n then NInf else PInf) else Fin 0)
      | Fin x \<Rightarrow> (if x = 0 then (if 0 < n then Fin 0 else PInf) else Fin (x powi n)))"

text \<open>\<open>Math.round\<close>: the nearest whole number, a tie going towards plus infinity.\<close>

fun Math_round :: "number \<Rightarrow> number" where
  "Math_round (Fin x) = Fin (of_int \<lfloor>x + 1 / 2\<rfloor>)"
| "Math_round PInf = PInf"
| "Math_round NInf = NInf"
| "Math_round NaN = NaN"

fun Math_abs :: "number \<Rightarrow> number" where
  "Math_abs (Fin x) = Fin \<bar>x\<bar>"
| "Math_abs PInf = PInf"
| "Math_abs NInf = PInf"
| "Math_abs NaN = NaN"

text \<open>\<open>Number.isInteger\<close>, the reading of "is a whole currency unit".\<close>

fun isInteger :: "number \<Rightarrow> bool" where
  "isInteger (Fin x) = (of_int \<lfloor>x\<rfloor> = x)"
| "isInteger PInf = False"
| "isInteger NInf = False"
| "isInteger NaN = False"

text \<open>\<open>Number.isFinite\<close>.\<close>

fun isFinite :: "number \<Rightarrow> bool" where
  "isFinite (Fin x) = True"
| "isFinite PInf = False"
| "isFinite NInf = False"
| "isFinite NaN = False"

section \<open>The component state\<close>

text \<open>
  The form hands the engine finite numbers: a number input of the browser holds a finite
  decimal or nothing, and \<open>Number\<close> of either is finite. The three ages are whole years
  (the data model of the specification; the inputs step by 1), the other numeric fields
  are arbitrary finite values.
\<close>

record CalculatorInputs =
  currentAge :: int
  retirementAge :: int
  lifeExpectancy :: int
  currentSavings :: real
  monthlyContributions :: real
  expectedReturn :: real
  inflationRate :: real
  desiredIncome :: real
  includeStatePension :: bool

definition DEFAULT_INPUTS :: CalculatorInputs where
  "DEFAULT_INPUTS =
     \<lparr>currentAge = 30, retirementAge = 65, lifeExpectancy = 85, currentSavings = 50000,
      monthlyContributions = 500, expectedReturn = 7, inflationRate = 2,
      desiredIncome = 40000, includeStatePension = True\<rparr>"

text \<open>The result record; its fields carry the prefix \<open>result_\<close> to keep them apart from
  the local constants of the same names.\<close>

record Results =
  result_totalSavings :: number
  result_annualIncome :: number
  result_shortfall :: number
  result_isShortfall :: bool

text \<open>The two \<open>useState\<close> cells of the component.\<close>

record state =
  inputs :: CalculatorInputs
  results :: "Results option"

definition setResults :: "Results \<Rightarrow> state \<Rightarrow> state" where
  "setResults r s = s\<lparr>results := Some r\<rparr>"

text \<open>The two module constants, in binary64: the literal 203.85 is the double nearest to
  it, and its product with 52 is rounded again.\<close>

definition STATE_PENSION_WEEKLY :: number where
  "STATE_PENSION_WEEKLY = binary64 (20385 / 100)"

definition STATE_PENSION_ANNUAL :: number where
  "STATE_PENSION_ANNUAL = rounded (num_mul STATE_PENSION_WEEKLY (Fin 52))"

section \<open>calculateRetirement\<close>

text \<open>Each local constant of \<open>calculateRetirement\<close> is a function of the inputs, in the
  order of the source.\<close>

definition yearsToInvest :: "CalculatorInputs \<Rightarrow> int" where
  "yearsToInvest i = retirementAge i - currentAge i"

definition yearsInRetirement :: "CalculatorInputs \<Rightarrow> int" where
  "yearsInRetirement i = lifeExpectancy i - retirementAge i"

definition realReturnRate :: "CalculatorInputs \<Rightarrow> number" where
  "realReturnRate i =
     num_sub
       (num_div (num_add (Fin 1) (num_div (Fin (expectedReturn i)) (Fin 100)))
                (num_add (Fin 1) (num_div (Fin (inflationRate i)) (Fin 100))))
       (Fin 1)"

definition futureSavings :: "CalculatorInputs \<Rightarrow> number" where
  "futureSavings i =
     num_mul (Fin (currentSavings i))
       (Math_pow (num_add (Fin 1) (realReturnRate i)) (yearsToInvest i))"

definition monthlyRate :: "CalculatorInputs \<Rightarrow> number" where
  "monthlyRate i = num_div (realReturnRate i) (Fin 12)"

definition months :: "CalculatorInputs \<Rightarrow> int" where
  "months i = yearsToInvest i * 12"

definition futureContributions :: "CalculatorInputs \<Rightarrow> number" where
  "futureContributions i =
     num_mul (Fin (monthlyContributions i))
       (num_div (num_sub (Math_pow (num_add (Fin 1) (monthlyRate i)) (months i)) (Fin 1))
                (monthlyRate i))"

definition totalSavings :: "CalculatorInputs \<Rightarrow> number" where
  "totalSavings i = num_add (futureSavings i) (futureContributions i)"

definition withdrawalRate :: number where
  "withdrawalRate = Fin (4 / 100)"

definition annualWithdrawal :: "CalculatorInputs \<Rightarrow> number" where
  "annualWithdrawal i = num_mul (totalSavings i) withdrawalRate"

definition statePensionAmount :: "CalculatorInputs \<Rightarrow> number" where
  "statePensionAmount i = (if includeStatePension i then STATE_PENSION_ANNUAL else Fin 0)"

definition totalAnnualIncome :: "CalculatorInputs \<Rightarrow> number" where
  "totalAnnualIncome i = num_add (annualWithdrawal i) (statePensionAmount i)"

definition shortfall :: "CalculatorInputs \<Rightarrow> number" where
  "shortfall i = num_sub (Fin (desiredIncome i)) (totalAnnualIncome i)"

text \<open>The function reads the cell \<open>inputs\<close> and writes the cell \<open>results\<close>.
  \<open>yearsInRetirement\<close> is bound and never read.\<close>

definition calculateRetirement :: "state \<Rightarrow> state" where
  "calculateRetirement s =
     (let i = inputs s;
          unused = yearsInRetirement i
      in setResults
           \<lparr>result_totalSavings = Math_round (totalSavings i),
            result_annualIncome = Math_round (totalAnnualIncome i),
            result_shortfall = Math_round (Math_abs (shortfall i)),
            result_isShortfall = num_gt (shortfall i) (Fin 0)\<rparr> s)"

section \<open>The formulas of the specification\<close>

text \<open>The real rate of return in the words of the specification, as a real number: the
  two percentages are compounded.\<close>

definition real_rate :: "CalculatorInputs \<Rightarrow> real" where
  "real_rate i = (1 + expectedReturn i / 100) / (1 + inflationRate i / 100) - 1"

section \<open>Sample input records\<close>

text \<open>An input record whose expected return equals its inflation rate: the defaults with
  an expected return of 2.\<close>

definition ZERO_RATE_INPUTS :: CalculatorInputs where
  "ZERO_RATE_INPUTS = DEFAULT_INPUTS\<lparr>expectedReturn := 2\<rparr>"

text \<open>Input records with one year to invest and no monthly contribution, by current
  savings, desired income and state-pension flag.\<close>

definition ONE_YEAR_INPUTS :: "real \<Rightarrow> real \<Rightarrow> bool \<Rightarrow> CalculatorInputs" where
  "ONE_YEAR_INPUTS sv d p =
     \<lparr>currentAge = 64, retirementAge = 65, lifeExpectancy = 85, currentSavings = sv,
      monthlyContributions = 0, expectedReturn = 7, inflationRate = 2,
      desiredIncome = d, includeStatePension = p\<rparr>"

text \<open>Input records of somebody who retires this year, by current savings, monthly
  contribution, desired income and state-pension flag. With no year to invest both
  powers are 1, and for savings that are a multiple of 25 every operation of the source
  is exact in binary64 when the flag is unset.\<close>

definition RETIRE_NOW_INPUTS :: "real \<Rightarrow> real \<Rightarrow> real \<Rightarrow> bool \<Rightarrow> CalculatorInputs" where
  "RETIRE_NOW_INPUTS sv mc d p =
     \<lparr>currentAge = 65, retirementAge = 65, lifeExpectancy = 85, currentSavings = sv,
      monthlyContributions = mc, expectedReturn = 7, inflationRate = 2,
      desiredIncome = d, includeStatePension = p\<rparr>"

section \<open>Basic facts\<close>

lemma num_add_NaN_right [simp]: "num_add a NaN = NaN"
  by (cases a) simp_all

lemma num_mul_NaN_right [simp]: "num_mul a NaN = NaN"
  by (cases a) simp_all

lemma num_div_NaN_right [simp]: "num_div a NaN = NaN"
  by (cases a) simp_all

lemma num_sub_NaN_left [simp]: "num_sub NaN b = NaN"
  by (simp add: num_sub_def)

lemma num_sub_NaN_right [simp]: "num_sub a NaN = NaN"
  by (simp add: num_sub_def)

lemma num_sub_Fin [simp]: "num_sub (Fin x) (Fin y) = Fin (x - y)"
  by (simp add: num_sub_def)

lemma num_add_zero_right [simp]: "num_add a (Fin 0) = a"
  by (cases a) simp_all

lemma calculateRetirement_results:
  "results (calculateRetirement s) =
     Some \<lparr>result_totalSavings = Math_round (totalSavings (inputs s)),
           result_annualIncome = Math_round (totalAnnualIncome (inputs s)),
           result_shortfall = Math_round (Math_abs (shortfall (inputs s))),
           result_isShortfall = num_gt (shortfall (inputs s)) (Fin 0)\<rparr>"
  by (simp add: calculateRetirement_def setResults_def Let_def)

lemma calculateRetirement_inputs: "inputs (calculateRetirement s) = inputs s"
  by (simp add: calculateRetirement_def setResults_def Let_def)

lemma binary_exponent_weekly: "binary_exponent (20385 / 100) = 7"
  by (simp add: binary_exponent_def eval_nat_numeral)

lemma STATE_PENSION_WEEKLY_value:
  "STATE_PENSION_WEEKLY = Fin (7172334250308403 / 35184372088832)"
  by (simp only: STATE_PENSION_WEEKLY_def binary64_def Let_def binary_exponent_weekly)
     (simp add: round_half_even_def)

lemma binary_exponent_annual:
  "binary_exponent (7172334250308403 / 35184372088832 * 52) = 13"
  by (simp add: binary_exponent_def eval_nat_numeral)

lemma STATE_PENSION_ANNUAL_value:
  "STATE_PENSION_ANNUAL = Fin (5827521578375577 / 549755813888)"
  by (simp only: STATE_PENSION_ANNUAL_def STATE_PENSION_WEEKLY_value num_mul.simps
        rounded_def number.case binary64_def Let_def binary_exponent_annual)
     (simp add: round_half_even_def)

lemma realReturnRate_Fin:
  "inflationRate i \<noteq> - 100 \<Longrightarrow> realReturnRate i = Fin (real_rate i)"
  by (simp add: realReturnRate_def real_rate_def num_sub_def)

lemma realReturnRate_equal_rates:
  "expectedReturn i = inflationRate i \<Longrightarrow> inflationRate i \<noteq> - 100 \<Longrightarrow>
   realReturnRate i = Fin 0"
  by (simp add: realReturnRate_def num_sub_def)

lemma futureContributions_equal_rates:
  "expectedReturn i = inflationRate i \<Longrightarrow> futureContributions i = NaN"
  by (cases "inflationRate i = - 100")
     (simp_all add: futureContributions_def monthlyRate_def realReturnRate_def num_sub_def
        Math_pow_def sgn_inf_def)

text \<open>The locals of \<open>calculateRetirement\<close> on the one-year records.\<close>

lemma ONE_YEAR_desiredIncome: "desiredIncome (ONE_YEAR_INPUTS sv d p) = d"
  by (simp add: ONE_YEAR_INPUTS_def)

lemma ONE_YEAR_realReturnRate: "realReturnRate (ONE_YEAR_INPUTS sv d p) = Fin (5 / 102)"
  by (simp add: realReturnRate_def ONE_YEAR_INPUTS_def)

lemma ONE_YEAR_futureSavings: "futureSavings (ONE_YEAR_INPUTS sv d p) = Fin (sv * 107 / 102)"
  by (simp add: futureSavings_def ONE_YEAR_realReturnRate yearsToInvest_def Math_pow_def)
     (simp add: ONE_YEAR_INPUTS_def)

lemma ONE_YEAR_futureContributions: "futureContributions (ONE_YEAR_INPUTS sv d p) = Fin 0"
  by (simp add: futureContributions_def monthlyRate_def ONE_YEAR_realReturnRate months_def
        yearsToInvest_def Math_pow_def)
     (simp add: ONE_YEAR_INPUTS_def)

lemma ONE_YEAR_totalSavings: "totalSavings (ONE_YEAR_INPUTS sv d p) = Fin (sv * 107 / 102)"
  by (simp add: totalSavings_def ONE_YEAR_futureSavings ONE_YEAR_futureContributions)

lemma ONE_YEAR_totalAnnualIncome:
  "totalAnnualIncome (ONE_YEAR_INPUTS sv d p)
     = Fin (sv * 107 / 102 * (4 / 100) + (if p then 5827521578375577 / 549755813888 else 0))"
  by (simp add: totalAnnualIncome_def annualWithdrawal_def withdrawalRate_def
        ONE_YEAR_totalSavings statePensionAmount_def STATE_PENSION_ANNUAL_value)
     (simp add: ONE_YEAR_INPUTS_def)

lemma ONE_YEAR_shortfall:
  "shortfall (ONE_YEAR_INPUTS sv d p)
     = Fin (d - (sv * 107 / 102 * (4 / 100) + (if p then 5827521578375577 / 549755813888 else 0)))"
  by (simp add: shortfall_def ONE_YEAR_totalAnnualIncome)
     (simp add: ONE_YEAR_INPUTS_def)

text \<open>Powers of a finite base, and the locals under a change of the life expectancy.\<close>

lemma Math_pow_Fin:
  "x \<noteq> 0 \<or> 0 \<le> n \<Longrightarrow> Math_pow (Fin x) n = Fin (x powi n)"
  by (auto simp add: Math_pow_def power_int_0_left_if)

lemma one_plus_real_rate:
  "inflationRate i \<noteq> - 100 \<Longrightarrow>
   1 + real_rate i = (100 + expectedReturn i) / (100 + inflationRate i)"
  by (simp add: real_rate_def field_simps)

lemma totalSavings_lifeExpectancy:
  "totalSavings (i\<lparr>lifeExpectancy := e\<rparr>) = totalSavings i"
  by (simp add: totalSavings_def futureSavings_def futureContributions_def monthlyRate_def
        months_def yearsToInvest_def realReturnRate_def)

lemma totalAnnualIncome_lifeExpectancy:
  "totalAnnualIncome (i\<lparr>lifeExpectancy := e\<rparr>) = totalAnnualIncome i"
  by (simp add: totalAnnualIncome_def annualWithdrawal_def statePensionAmount_def
        totalSavings_lifeExpectancy)

lemma shortfall_lifeExpectancy:
  "shortfall (i\<lparr>lifeExpectancy := e\<rparr>) = shortfall i"
  by (simp add: shortfall_def totalAnnualIncome_lifeExpectancy)

text \<open>The locals of \<open>calculateRetirement\<close> on the records of a retirement this year.\<close>

lemma RETIRE_NOW_desiredIncome: "desiredIncome (RETIRE_NOW_INPUTS sv mc d p) = d"
  by (simp add: RETIRE_NOW_INPUTS_def)

lemma RETIRE_NOW_realReturnRate:
  "realReturnRate (RETIRE_NOW_INPUTS sv mc d p) = Fin (5 / 102)"
  by (simp add: realReturnRate_def RETIRE_NOW_INPUTS_def)

lemma RETIRE_NOW_yearsToInvest: "yearsToInvest (RETIRE_NOW_INPUTS sv mc d p) = 0"
  by (simp add: yearsToInvest_def RETIRE_NOW_INPUTS_def)

lemma RETIRE_NOW_futureSavings: "futureSavings (RETIRE_NOW_INPUTS sv mc d p) = Fin sv"
  by (simp add: futureSavings_def RETIRE_NOW_yearsToInvest Math_pow_def)
     (simp add: RETIRE_NOW_INPUTS_def)

lemma RETIRE_NOW_futureContributions:
  "futureContributions (RETIRE_NOW_INPUTS sv mc d p) = Fin 0"
  by (simp add: futureContributions_def monthlyRate_def RETIRE_NOW_realReturnRate months_def
        RETIRE_NOW_yearsToInvest Math_pow_def)

lemma RETIRE_NOW_totalSavings: "totalSavings (RETIRE_NOW_INPUTS sv mc d p) = Fin sv"
  by (simp add: totalSavings_def RETIRE_NOW_futureSavings RETIRE_NOW_futureContributions)

lemma RETIRE_NOW_annualWithdrawal:
  "annualWithdrawal (RETIRE_NOW_INPUTS sv mc d p) = Fin (sv * (4 / 100))"
  by (simp add: annualWithdrawal_def withdrawalRate_def RETIRE_NOW_totalSavings)

lemma RETIRE_NOW_totalAnnualIncome:
  "totalAnnualIncome (RETIRE_NOW_INPUTS sv mc d p)
     = Fin (sv * (4 / 100) + (if p then 5827521578375577 / 549755813888 else 0))"
  by (simp add: totalAnnualIncome_def RETIRE_NOW_annualWithdrawal statePensionAmount_def
        STATE_PENSION_ANNUAL_value)
     (simp add: RETIRE_NOW_INPUTS_def)

lemma RETIRE_NOW_shortfall:
  "shortfall (RETIRE_NOW_INPUTS sv mc d p)
     = Fin (d - (sv * (4 / 100) + (if p then 5827521578375577 / 549755813888 else 0)))"
  by (simp add: shortfall_def RETIRE_NOW_totalAnnualIncome RETIRE_NOW_desiredIncome)

section \<open>Claims\<close>

text \<open>
  C1. The specification asks that, for an input record whose real monthly rate is exactly
  zero (the expected return equals the inflation rate), the future value of the
  contributions is the monthly contribution times the number of months. The source has
  no such case: it divides \<open>Math.pow(1 + 0, months) - 1 = 0\<close> by the rate \<open>0\<close>. For the
  default inputs with an expected return of 2 the monthly rate is 0, the future value of
  the contributions is not-a-number instead of 500 times 420, and the not-a-number
  reaches all three numeric fields of the result.
\<close>

theorem C1_zero_real_rate_not_guarded:
  "monthlyRate ZERO_RATE_INPUTS = Fin 0
   \<and> months ZERO_RATE_INPUTS = 420
   \<and> futureContributions ZERO_RATE_INPUTS = NaN
   \<and> futureContributions ZERO_RATE_INPUTS
       \<noteq> Fin (monthlyContributions ZERO_RATE_INPUTS * of_int (months ZERO_RATE_INPUTS))
   \<and> results (calculateRetirement \<lparr>inputs = ZERO_RATE_INPUTS, results = None\<rparr>)
       = Some \<lparr>result_totalSavings = NaN, result_annualIncome = NaN,
               result_shortfall = NaN, result_isShortfall = False\<rparr>"
proof -
  have eq: "expectedReturn ZERO_RATE_INPUTS = inflationRate ZERO_RATE_INPUTS"
    by (simp add: ZERO_RATE_INPUTS_def DEFAULT_INPUTS_def)
  have rr: "realReturnRate ZERO_RATE_INPUTS = Fin 0"
    by (rule realReturnRate_equal_rates [OF eq]) (simp add: ZERO_RATE_INPUTS_def DEFAULT_INPUTS_def)
  have mr: "monthlyRate ZERO_RATE_INPUTS = Fin 0"
    by (simp add: monthlyRate_def rr)
  have m: "months ZERO_RATE_INPUTS = 420"
    by (simp add: months_def yearsToInvest_def ZERO_RATE_INPUTS_def DEFAULT_INPUTS_def)
  have fc: "futureContributions ZERO_RATE_INPUTS = NaN"
    by (rule futureContributions_equal_rates [OF eq])
  have ts: "totalSavings ZERO_RATE_INPUTS = NaN"
    by (simp add: totalSavings_def fc)
  have ti: "totalAnnualIncome ZERO_RATE_INPUTS = NaN"
    by (simp add: totalAnnualIncome_def annualWithdrawal_def ts)
  have sf: "shortfall ZERO_RATE_INPUTS = NaN"
    by (simp add: shortfall_def num_sub_def ti)
  show ?thesis
    by (simp add: mr m fc calculateRetirement_results ts ti sf)
qed

text \<open>
  C2. For every input record the gap is the desired income minus the total annual income.
  If the gap is positive the result is a shortfall (\<open>isShortfall\<close> true) and if it is
  negative or zero a surplus (\<open>isShortfall\<close> false); the magnitude reported is the
  absolute value of the gap, rounded. When the desired income equals the total annual
  income the gap is 0, the reported amount is 0 and \<open>isShortfall\<close> is false.
\<close>

theorem C2_gap_shortfall_or_surplus:
  assumes "results (calculateRetirement s) = Some r"
  shows "shortfall (inputs s)
           = num_sub (Fin (desiredIncome (inputs s))) (totalAnnualIncome (inputs s))
    \<and> (num_gt (shortfall (inputs s)) (Fin 0) \<longrightarrow>
          result_isShortfall r \<and> result_shortfall r = Math_round (shortfall (inputs s)))
    \<and> (num_gt (Fin 0) (shortfall (inputs s)) \<or> shortfall (inputs s) = Fin 0 \<longrightarrow>
          \<not> result_isShortfall r
          \<and> result_shortfall r = Math_round (num_neg (shortfall (inputs s))))
    \<and> (shortfall (inputs s) = Fin g \<longrightarrow>
          result_isShortfall r = (0 < g) \<and> result_shortfall r = Fin (of_int \<lfloor>\<bar>g\<bar> + 1 / 2\<rfloor>))
    \<and> (totalAnnualIncome (inputs s) = Fin (desiredIncome (inputs s)) \<longrightarrow>
          shortfall (inputs s) = Fin 0 \<and> result_shortfall r = Fin 0
          \<and> \<not> result_isShortfall r)"
proof -
  have r: "r = \<lparr>result_totalSavings = Math_round (totalSavings (inputs s)),
           result_annualIncome = Math_round (totalAnnualIncome (inputs s)),
           result_shortfall = Math_round (Math_abs (shortfall (inputs s))),
           result_isShortfall = num_gt (shortfall (inputs s)) (Fin 0)\<rparr>"
    using assms by (simp add: calculateRetirement_results)
  have pos: "num_gt x (Fin 0) \<Longrightarrow> Math_abs x = x" for x
    by (cases x) simp_all
  have neg: "num_gt (Fin 0) x \<or> x = Fin 0 \<Longrightarrow> Math_abs x = num_neg x \<and> \<not> num_gt x (Fin 0)" for x
    by (cases x) auto
  show ?thesis
    using pos [of "shortfall (inputs s)"] neg [of "shortfall (inputs s)"]
    by (auto simp add: r shortfall_def)
qed

theorem C2_gap_shortfall_or_surplus_witness:
  "results (calculateRetirement
      \<lparr>inputs = RETIRE_NOW_INPUTS 10000 500 40000 False, results = None\<rparr>)
     = Some \<lparr>result_totalSavings = Fin 10000, result_annualIncome = Fin 400,
             result_shortfall = Fin 39600, result_isShortfall = True\<rparr>
   \<and> shortfall (RETIRE_NOW_INPUTS 10000 500 40000 False) = Fin 39600
   \<and> num_gt (shortfall (RETIRE_NOW_INPUTS 10000 500 40000 False)) (Fin 0)
   \<and> results (calculateRetirement
      \<lparr>inputs = RETIRE_NOW_INPUTS 1000000 500 30000 False, results = None\<rparr>)
     = Some \<lparr>result_totalSavings = Fin 1000000, result_annualIncome = Fin 40000,
             result_shortfall = Fin 10000, result_isShortfall = False\<rparr>
   \<and> shortfall (RETIRE_NOW_INPUTS 1000000 500 30000 False) = Fin (- 10000)
   \<and> num_gt (Fin 0) (shortfall (RETIRE_NOW_INPUTS 1000000 500 30000 False))
   \<and> totalAnnualIncome (RETIRE_NOW_INPUTS 1000000 500 40000 False)
       = Fin (desiredIncome (RETIRE_NOW_INPUTS 1000000 500 40000 False))
   \<and> results (calculateRetirement
      \<lparr>inputs = RETIRE_NOW_INPUTS 1000000 500 40000 False, results = None\<rparr>)
     = Some \<lparr>result_totalSavings = Fin 1000000, result_annualIncome = Fin 40000,
             result_shortfall = Fin 0, result_isShortfall = False\<rparr>
   \<and> num_gt (shortfall (RETIRE_NOW_INPUTS 20 500 10601 True)) (Fin 0)
   \<and> results (calculateRetirement
      \<lparr>inputs = RETIRE_NOW_INPUTS 20 500 10601 True, results = None\<rparr>)
     = Some \<lparr>result_totalSavings = Fin 20, result_annualIncome = Fin 10601,
             result_shortfall = Fin 0, result_isShortfall = True\<rparr>"
  using
    C2_gap_shortfall_or_surplus
      [of "\<lparr>inputs = RETIRE_NOW_INPUTS 10000 500 40000 False, results = None\<rparr>" _ 39600]
    C2_gap_shortfall_or_surplus
      [of "\<lparr>inputs = RETIRE_NOW_INPUTS 1000000 500 30000 False, results = None\<rparr>" _
        "- 10000"]
    C2_gap_shortfall_or_surplus
      [of "\<lparr>inputs = RETIRE_NOW_INPUTS 1000000 500 40000 False, results = None\<rparr>" _ 0]
    C2_gap_shortfall_or_surplus
      [of "\<lparr>inputs = RETIRE_NOW_INPUTS 20 500 10601 True, results = None\<rparr>" _
        "10601 - (20 * (4 / 100) + 5827521578375577 / 549755813888)"]
  by (simp add: calculateRetirement_results RETIRE_NOW_shortfall RETIRE_NOW_totalAnnualIncome
        RETIRE_NOW_totalSavings RETIRE_NOW_desiredIncome)

text \<open>
  C3. For every input record the real annual return rate is the quotient of
  \<open>1 + expectedReturn / 100\<close> by \<open>1 + inflationRate / 100\<close>, minus 1, in the arithmetic
  of the source. When the inflation rate is not minus 100 the divisor is not zero and the
  rate is that real number, which is the difference of the two percentages divided by
  100 plus the inflation rate: the percentages are compounded, not subtracted.
\<close>

theorem C3_real_rate_compounded:
  "realReturnRate i =
     num_sub (num_div (Fin (1 + expectedReturn i / 100)) (Fin (1 + inflationRate i / 100)))
             (Fin 1)
   \<and> (inflationRate i \<noteq> - 100 \<longrightarrow>
        realReturnRate i
          = Fin ((1 + expectedReturn i / 100) / (1 + inflationRate i / 100) - 1)
        \<and> realReturnRate i
          = Fin ((expectedReturn i - inflationRate i) / (100 + inflationRate i)))"
  apply (auto simp add: realReturnRate_def num_sub_def)
  apply (simp add: field_simps)
  done

theorem C3_real_rate_compounded_witness:
  "inflationRate DEFAULT_INPUTS \<noteq> - 100
   \<and> realReturnRate DEFAULT_INPUTS = Fin (5 / 102)
   \<and> realReturnRate DEFAULT_INPUTS
        \<noteq> Fin ((expectedReturn DEFAULT_INPUTS - inflationRate DEFAULT_INPUTS) / 100)"
  using C3_real_rate_compounded [of DEFAULT_INPUTS]
  by (simp add: DEFAULT_INPUTS_def)

text \<open>
  C4. For every input record the years to invest are the retirement age minus the current
  age, with no clamping: a retirement age below the current age gives a negative number
  of years. The future value of the current savings is the current savings times
  \<open>1 + realReturnRate\<close> to the power of the years to invest, in the arithmetic of the
  source. When the inflation rate is not minus 100, and the expected return is not minus
  100 or the span is not negative, that value is the real number
  \<open>currentSavings * (1 + real_rate) powi yearsToInvest\<close>.
\<close>

theorem C4_years_to_invest_and_future_savings:
  "yearsToInvest i = retirementAge i - currentAge i
   \<and> (retirementAge i < currentAge i \<longrightarrow> yearsToInvest i < 0)
   \<and> futureSavings i
       = num_mul (Fin (currentSavings i))
           (Math_pow (num_add (Fin 1) (realReturnRate i)) (retirementAge i - currentAge i))
   \<and> (inflationRate i \<noteq> - 100
        \<and> (expectedReturn i \<noteq> - 100 \<or> currentAge i \<le> retirementAge i) \<longrightarrow>
        realReturnRate i = Fin (real_rate i)
        \<and> futureSavings i
            = Fin (currentSavings i
                   * (1 + real_rate i) powi (retirementAge i - currentAge i)))"
proof -
  have fin: "futureSavings i
            = Fin (currentSavings i
                   * (1 + real_rate i) powi (retirementAge i - currentAge i))"
    if a: "inflationRate i \<noteq> - 100"
      and b: "expectedReturn i \<noteq> - 100 \<or> currentAge i \<le> retirementAge i"
  proof -
    have "1 + real_rate i \<noteq> 0 \<or> 0 \<le> retirementAge i - currentAge i"
      using a b by (auto simp add: one_plus_real_rate)
    then show ?thesis
      by (simp add: futureSavings_def realReturnRate_Fin [OF a] yearsToInvest_def Math_pow_Fin)
  qed
  show ?thesis
    using fin by (simp add: yearsToInvest_def futureSavings_def realReturnRate_Fin)
qed

theorem C4_years_to_invest_and_future_savings_witness:
  "retirementAge (DEFAULT_INPUTS\<lparr>currentAge := 66\<rparr>)
     < currentAge (DEFAULT_INPUTS\<lparr>currentAge := 66\<rparr>)
   \<and> inflationRate (DEFAULT_INPUTS\<lparr>currentAge := 66\<rparr>) \<noteq> - 100
   \<and> expectedReturn (DEFAULT_INPUTS\<lparr>currentAge := 66\<rparr>) \<noteq> - 100
   \<and> yearsToInvest (DEFAULT_INPUTS\<lparr>currentAge := 66\<rparr>) = - 1
   \<and> realReturnRate (DEFAULT_INPUTS\<lparr>currentAge := 66\<rparr>) = Fin (5 / 102)
   \<and> futureSavings (DEFAULT_INPUTS\<lparr>currentAge := 66\<rparr>) = Fin (5100000 / 107)"
  using C4_years_to_invest_and_future_savings [of "DEFAULT_INPUTS\<lparr>currentAge := 66\<rparr>"]
  by (simp add: DEFAULT_INPUTS_def real_rate_def Math_pow_def)

text \<open>
  C5. For every input record the projected annual withdrawal is the total projected
  savings times the constant 4 percent. The years in retirement are the life expectancy
  minus the retirement age, and they do not affect the payout: changing the life
  expectancy changes neither the withdrawal, nor the total annual income, nor the result
  record.
\<close>

theorem C5_withdrawal_is_four_percent:
  "annualWithdrawal i = num_mul (totalSavings i) (Fin (4 / 100))
   \<and> (totalSavings i = Fin t \<longrightarrow> annualWithdrawal i = Fin (t * 4 / 100))
   \<and> yearsInRetirement i = lifeExpectancy i - retirementAge i
   \<and> annualWithdrawal (i\<lparr>lifeExpectancy := e\<rparr>) = annualWithdrawal i
   \<and> totalAnnualIncome (i\<lparr>lifeExpectancy := e\<rparr>) = totalAnnualIncome i
   \<and> results (calculateRetirement \<lparr>inputs = i\<lparr>lifeExpectancy := e\<rparr>, results = q\<rparr>)
       = results (calculateRetirement \<lparr>inputs = i, results = q\<rparr>)"
  by (simp add: annualWithdrawal_def withdrawalRate_def yearsInRetirement_def
        totalSavings_lifeExpectancy totalAnnualIncome_lifeExpectancy shortfall_lifeExpectancy
        calculateRetirement_results)

theorem C5_withdrawal_is_four_percent_witness:
  "totalSavings (ONE_YEAR_INPUTS 10200 40000 True) = Fin 10700
   \<and> annualWithdrawal (ONE_YEAR_INPUTS 10200 40000 True) = Fin 428
   \<and> yearsInRetirement (ONE_YEAR_INPUTS 10200 40000 True) = 20
   \<and> yearsInRetirement ((ONE_YEAR_INPUTS 10200 40000 True)\<lparr>lifeExpectancy := 66\<rparr>) = 1
   \<and> annualWithdrawal ((ONE_YEAR_INPUTS 10200 40000 True)\<lparr>lifeExpectancy := 66\<rparr>) = Fin 428"
  using C5_withdrawal_is_four_percent [of "ONE_YEAR_INPUTS 10200 40000 True" 10700 66]
    C5_withdrawal_is_four_percent [of "(ONE_YEAR_INPUTS 10200 40000 True)\<lparr>lifeExpectancy := 66\<rparr>"]
  by (simp add: ONE_YEAR_totalSavings) (simp add: ONE_YEAR_INPUTS_def)

text \<open>
  C6. The annual state pension is the weekly rate 203.85 times 52 as the module computes
  it, in binary64: the number 10600.199999999999, which is 10600.20 to the cent and less
  than one part in a hundred thousand million away from it. For every input record with
  the flag set the total annual income is the withdrawal plus that constant; with the
  flag unset it is the withdrawal alone.
\<close>

theorem C6_state_pension_added:
  "STATE_PENSION_ANNUAL = rounded (num_mul (binary64 (20385 / 100)) (Fin 52))
   \<and> STATE_PENSION_ANNUAL = Fin (5827521578375577 / 549755813888)
   \<and> \<bar>5827521578375577 / 549755813888 - 1060020 / 100\<bar> < (1 / 10 ^ 11 :: real)
   \<and> Math_round (num_mul STATE_PENSION_ANNUAL (Fin 100)) = Fin 1060020
   \<and> (includeStatePension i \<longrightarrow>
        totalAnnualIncome i = num_add (annualWithdrawal i) STATE_PENSION_ANNUAL)
   \<and> (\<not> includeStatePension i \<longrightarrow> totalAnnualIncome i = annualWithdrawal i)
   \<and> (annualWithdrawal i = Fin w \<longrightarrow>
        totalAnnualIncome i
          = Fin (w + (if includeStatePension i
                      then 5827521578375577 / 549755813888 else 0)))"
proof -
  have product: "STATE_PENSION_ANNUAL = rounded (num_mul (binary64 (20385 / 100)) (Fin 52))"
    by (simp only: STATE_PENSION_ANNUAL_def STATE_PENSION_WEEKLY_def)
  have near: "\<bar>5827521578375577 / 549755813888 - 1060020 / 100\<bar> < (1 / 10 ^ 11 :: real)"
    by simp
  have cents: "Math_round (num_mul STATE_PENSION_ANNUAL (Fin 100)) = Fin 1060020"
    by (simp add: STATE_PENSION_ANNUAL_value)
  have flag_set: "includeStatePension i \<longrightarrow>
        totalAnnualIncome i = num_add (annualWithdrawal i) STATE_PENSION_ANNUAL"
    by (simp add: totalAnnualIncome_def statePensionAmount_def)
  have flag_unset: "\<not> includeStatePension i \<longrightarrow> totalAnnualIncome i = annualWithdrawal i"
    by (simp add: totalAnnualIncome_def statePensionAmount_def)
  have finite_case: "annualWithdrawal i = Fin w \<longrightarrow>
        totalAnnualIncome i
          = Fin (w + (if includeStatePension i
                      then 5827521578375577 / 549755813888 else 0))"
    by (simp add: totalAnnualIncome_def statePensionAmount_def STATE_PENSION_ANNUAL_value)
  from product STATE_PENSION_ANNUAL_value near cents flag_set flag_unset finite_case show ?thesis
    by blast
qed

theorem C6_state_pension_added_witness:
  "includeStatePension (RETIRE_NOW_INPUTS 10700 500 40000 True)
   \<and> annualWithdrawal (RETIRE_NOW_INPUTS 10700 500 40000 True) = Fin 428
   \<and> totalAnnualIncome (RETIRE_NOW_INPUTS 10700 500 40000 True)
       = Fin (428 + 5827521578375577 / 549755813888)
   \<and> \<not> includeStatePension (RETIRE_NOW_INPUTS 10700 500 40000 False)
   \<and> annualWithdrawal (RETIRE_NOW_INPUTS 10700 500 40000 False) = Fin 428
   \<and> totalAnnualIncome (RETIRE_NOW_INPUTS 10700 500 40000 False) = Fin 428"
proof -
  have on: "includeStatePension (RETIRE_NOW_INPUTS 10700 500 40000 True)"
    and off: "\<not> includeStatePension (RETIRE_NOW_INPUTS 10700 500 40000 False)"
    by (simp_all add: RETIRE_NOW_INPUTS_def)
  have w1: "annualWithdrawal (RETIRE_NOW_INPUTS 10700 500 40000 True) = Fin 428"
    and w2: "annualWithdrawal (RETIRE_NOW_INPUTS 10700 500 40000 False) = Fin 428"
    by (simp_all add: RETIRE_NOW_annualWithdrawal)
  from C6_state_pension_added [of "RETIRE_NOW_INPUTS 10700 500 40000 True" 428]
  have "annualWithdrawal (RETIRE_NOW_INPUTS 10700 500 40000 True) = Fin 428 \<longrightarrow>
        totalAnnualIncome (RETIRE_NOW_INPUTS 10700 500 40000 True)
          = Fin (428 + (if includeStatePension (RETIRE_NOW_INPUTS 10700 500 40000 True)
                        then 5827521578375577 / 549755813888 else 0))"
    by blast
  with on w1
  have t1: "totalAnnualIncome (RETIRE_NOW_INPUTS 10700 500 40000 True)
       = Fin (428 + 5827521578375577 / 549755813888)"
    by simp
  from C6_state_pension_added [of "RETIRE_NOW_INPUTS 10700 500 40000 False"]
  have "\<not> includeStatePension (RETIRE_NOW_INPUTS 10700 500 40000 False) \<longrightarrow>
        totalAnnualIncome (RETIRE_NOW_INPUTS 10700 500 40000 False)
          = annualWithdrawal (RETIRE_NOW_INPUTS 10700 500 40000 False)"
    by blast
  with off w2
  have t2: "totalAnnualIncome (RETIRE_NOW_INPUTS 10700 500 40000 False) = Fin 428"
    by simp
  from on off w1 w2 t1 t2 show ?thesis
    by blast
qed

text \<open>
  C7. As stated, for every input record with no monthly contribution and no current
  savings, the claim fails where the arithmetic leaves the finite numbers: with an
  inflation rate of minus 100 the deflator \<open>1 + inflationRate / 100\<close> is zero, the real
  rate is \<open>Infinity\<close>, and zero savings times \<open>Infinity\<close> is not-a-number.
\<close>

theorem C7_counterexample_no_deflator:
  "monthlyContributions
     (DEFAULT_INPUTS\<lparr>currentSavings := 0, monthlyContributions := 0, inflationRate := - 100\<rparr>) = 0
   \<and> currentSavings
     (DEFAULT_INPUTS\<lparr>currentSavings := 0, monthlyContributions := 0, inflationRate := - 100\<rparr>) = 0
   \<and> totalSavings
     (DEFAULT_INPUTS\<lparr>currentSavings := 0, monthlyContributions := 0, inflationRate := - 100\<rparr>) = NaN
   \<and> totalSavings
     (DEFAULT_INPUTS\<lparr>currentSavings := 0, monthlyContributions := 0, inflationRate := - 100\<rparr>)
       \<noteq> Fin 0
   \<and> totalAnnualIncome
     (DEFAULT_INPUTS\<lparr>currentSavings := 0, monthlyContributions := 0, inflationRate := - 100\<rparr>) = NaN
   \<and> totalAnnualIncome
     (DEFAULT_INPUTS\<lparr>currentSavings := 0, monthlyContributions := 0, inflationRate := - 100\<rparr>)
       \<noteq> STATE_PENSION_ANNUAL"
  by (simp add: DEFAULT_INPUTS_def totalAnnualIncome_def annualWithdrawal_def totalSavings_def
        futureSavings_def realReturnRate_def num_sub_def sgn_inf_def Math_pow_def
        yearsToInvest_def STATE_PENSION_ANNUAL_value)

text \<open>
  C7, amended. For every input record with no monthly contribution and no current
  savings for which the two growth factors that the engine computes, the power
  \<open>Math.pow(1 + realReturnRate, yearsToInvest)\<close> and the annuity factor
  \<open>(Math.pow(1 + monthlyRate, months) - 1) / monthlyRate\<close>, are finite numbers, the
  projected total savings are 0 and the total annual income is the state-pension amount
  when the flag is set and 0 when it is not.
\<close>

theorem C7_no_savings_no_contributions:
  assumes mc: "monthlyContributions i = 0"
    and cs: "currentSavings i = 0"
    and growth: "isFinite (Math_pow (num_add (Fin 1) (realReturnRate i)) (yearsToInvest i))"
    and annuity:
      "isFinite
         (num_div (num_sub (Math_pow (num_add (Fin 1) (monthlyRate i)) (months i)) (Fin 1))
                  (monthlyRate i))"
  shows "totalSavings i = Fin 0
    \<and> totalAnnualIncome i = (if includeStatePension i then STATE_PENSION_ANNUAL else Fin 0)
    \<and> results (calculateRetirement \<lparr>inputs = i, results = q\<rparr>)
        = Some \<lparr>result_totalSavings = Fin 0,
                result_annualIncome = (if includeStatePension i then Fin 10600 else Fin 0),
                result_shortfall = Math_round (Math_abs (shortfall i)),
                result_isShortfall = num_gt (shortfall i) (Fin 0)\<rparr>"
proof -
  have fin: "isFinite a \<Longrightarrow> num_mul (Fin 0) a = Fin 0" for a
    by (cases a) simp_all
  have fs: "futureSavings i = Fin 0"
    using fin [OF growth] by (simp add: futureSavings_def cs)
  have fc: "futureContributions i = Fin 0"
    using fin [OF annuity] by (simp add: futureContributions_def mc)
  have ts: "totalSavings i = Fin 0"
    by (simp add: totalSavings_def fs fc)
  have ti: "totalAnnualIncome i = (if includeStatePension i then STATE_PENSION_ANNUAL else Fin 0)"
    by (simp add: totalAnnualIncome_def annualWithdrawal_def withdrawalRate_def ts
          statePensionAmount_def STATE_PENSION_ANNUAL_value)
  show ?thesis
    by (simp add: ts ti calculateRetirement_results STATE_PENSION_ANNUAL_value)
qed

theorem C7_no_savings_no_contributions_witness:
  "monthlyContributions (ONE_YEAR_INPUTS 0 40000 True) = 0
   \<and> currentSavings (ONE_YEAR_INPUTS 0 40000 True) = 0
   \<and> isFinite (Math_pow (num_add (Fin 1) (realReturnRate (ONE_YEAR_INPUTS 0 40000 True)))
                 (yearsToInvest (ONE_YEAR_INPUTS 0 40000 True)))
   \<and> isFinite
        (num_div
          (num_sub (Math_pow (num_add (Fin 1) (monthlyRate (ONE_YEAR_INPUTS 0 40000 True)))
                      (months (ONE_YEAR_INPUTS 0 40000 True))) (Fin 1))
          (monthlyRate (ONE_YEAR_INPUTS 0 40000 True)))
   \<and> totalSavings (ONE_YEAR_INPUTS 0 40000 True) = Fin 0
   \<and> totalAnnualIncome (ONE_YEAR_INPUTS 0 40000 True) = STATE_PENSION_ANNUAL
   \<and> results (calculateRetirement
        \<lparr>inputs = ONE_YEAR_INPUTS 0 40000 True, results = None\<rparr>)
     = Some \<lparr>result_totalSavings = Fin 0, result_annualIncome = Fin 10600,
             result_shortfall = Fin 29400, result_isShortfall = True\<rparr>
   \<and> totalSavings (RETIRE_NOW_INPUTS 0 0 40000 False) = Fin 0
   \<and> totalAnnualIncome (RETIRE_NOW_INPUTS 0 0 40000 False) = Fin 0
   \<and> results (calculateRetirement
        \<lparr>inputs = RETIRE_NOW_INPUTS 0 0 40000 False, results = None\<rparr>)
     = Some \<lparr>result_totalSavings = Fin 0, result_annualIncome = Fin 0,
             result_shortfall = Fin 40000, result_isShortfall = True\<rparr>"
proof -
  have g1: "isFinite (Math_pow (num_add (Fin 1) (realReturnRate (ONE_YEAR_INPUTS 0 40000 True)))
                 (yearsToInvest (ONE_YEAR_INPUTS 0 40000 True)))"
    by (simp add: ONE_YEAR_realReturnRate Math_pow_def)
  have a1: "isFinite
        (num_div
          (num_sub (Math_pow (num_add (Fin 1) (monthlyRate (ONE_YEAR_INPUTS 0 40000 True)))
                      (months (ONE_YEAR_INPUTS 0 40000 True))) (Fin 1))
          (monthlyRate (ONE_YEAR_INPUTS 0 40000 True)))"
    by (simp add: monthlyRate_def ONE_YEAR_realReturnRate Math_pow_def)
  have g2: "isFinite (Math_pow (num_add (Fin 1) (realReturnRate (RETIRE_NOW_INPUTS 0 0 40000 False)))
                 (yearsToInvest (RETIRE_NOW_INPUTS 0 0 40000 False)))"
    by (simp add: RETIRE_NOW_yearsToInvest Math_pow_def)
  have a2: "isFinite
        (num_div
          (num_sub (Math_pow (num_add (Fin 1) (monthlyRate (RETIRE_NOW_INPUTS 0 0 40000 False)))
                      (months (RETIRE_NOW_INPUTS 0 0 40000 False))) (Fin 1))
          (monthlyRate (RETIRE_NOW_INPUTS 0 0 40000 False)))"
    by (simp add: monthlyRate_def RETIRE_NOW_realReturnRate months_def
          RETIRE_NOW_yearsToInvest Math_pow_def)
  have m1: "monthlyContributions (ONE_YEAR_INPUTS 0 40000 True) = 0"
    and s1: "currentSavings (ONE_YEAR_INPUTS 0 40000 True) = 0"
    and p1: "includeStatePension (ONE_YEAR_INPUTS 0 40000 True)"
    by (simp_all add: ONE_YEAR_INPUTS_def)
  have m2: "monthlyContributions (RETIRE_NOW_INPUTS 0 0 40000 False) = 0"
    and s2: "currentSavings (RETIRE_NOW_INPUTS 0 0 40000 False) = 0"
    and p2: "\<not> includeStatePension (RETIRE_NOW_INPUTS 0 0 40000 False)"
    by (simp_all add: RETIRE_NOW_INPUTS_def)
  show ?thesis
    using C7_no_savings_no_contributions [OF m1 s1 g1 a1, of None]
      C7_no_savings_no_contributions [OF m2 s2 g2 a2, of None]
    by (simp add: g1 a1 m1 s1 p1 p2 ONE_YEAR_shortfall RETIRE_NOW_shortfall)
qed

text \<open>
  C8. As stated, for every input record, the claim fails where the unrounded values are
  not finite: \<open>Math.round\<close> returns not-a-number unchanged, and with the default inputs at
  an inflation rate of minus 100 all three currency fields of the result are
  not-a-number, which is not an integer.
\<close>

theorem C8_counterexample_not_integer:
  "results (calculateRetirement
      \<lparr>inputs = DEFAULT_INPUTS\<lparr>inflationRate := - 100\<rparr>, results = None\<rparr>)
     = Some \<lparr>result_totalSavings = NaN, result_annualIncome = NaN,
             result_shortfall = NaN, result_isShortfall = False\<rparr>
   \<and> \<not> isInteger NaN"
proof -
  have ts: "totalSavings (DEFAULT_INPUTS\<lparr>inflationRate := - 100\<rparr>) = NaN"
    by (simp add: DEFAULT_INPUTS_def totalSavings_def futureContributions_def monthlyRate_def
        realReturnRate_def num_sub_def sgn_inf_def Math_pow_def months_def yearsToInvest_def)
  have ti: "totalAnnualIncome (DEFAULT_INPUTS\<lparr>inflationRate := - 100\<rparr>) = NaN"
    by (simp add: totalAnnualIncome_def annualWithdrawal_def ts)
  show ?thesis
    by (simp add: calculateRetirement_results ts ti shortfall_def)
qed

text \<open>
  C8, amended. For every input record whose unrounded total savings, total annual income
  and gap are finite, the three returned currency fields are integers: each is the
  unrounded value (the absolute value, for the gap) rounded to a nearest whole number,
  namely the floor of the value plus one half. A tie goes towards plus infinity: 1000.5
  becomes 1001 and -1000.5 becomes -1000.
\<close>

theorem C8_outputs_rounded_half_up:
  assumes "results (calculateRetirement s) = Some r"
  shows "(totalSavings (inputs s) = Fin t \<longrightarrow>
            result_totalSavings r = Fin (of_int \<lfloor>t + 1 / 2\<rfloor>)
            \<and> isInteger (result_totalSavings r)
            \<and> \<bar>of_int \<lfloor>t + 1 / 2\<rfloor> - t\<bar> \<le> 1 / 2)
    \<and> (totalAnnualIncome (inputs s) = Fin a \<longrightarrow>
            result_annualIncome r = Fin (of_int \<lfloor>a + 1 / 2\<rfloor>)
            \<and> isInteger (result_annualIncome r)
            \<and> \<bar>of_int \<lfloor>a + 1 / 2\<rfloor> - a\<bar> \<le> 1 / 2)
    \<and> (shortfall (inputs s) = Fin g \<longrightarrow>
            result_shortfall r = Fin (of_int \<lfloor>\<bar>g\<bar> + 1 / 2\<rfloor>)
            \<and> isInteger (result_shortfall r)
            \<and> \<bar>of_int \<lfloor>\<bar>g\<bar> + 1 / 2\<rfloor> - \<bar>g\<bar>\<bar> \<le> 1 / 2)
    \<and> Math_round (Fin (2001 / 2)) = Fin 1001
    \<and> Math_round (Fin (- 2001 / 2)) = Fin (- 1000)"
proof -
  have r: "r = \<lparr>result_totalSavings = Math_round (totalSavings (inputs s)),
           result_annualIncome = Math_round (totalAnnualIncome (inputs s)),
           result_shortfall = Math_round (Math_abs (shortfall (inputs s))),
           result_isShortfall = num_gt (shortfall (inputs s)) (Fin 0)\<rparr>"
    using assms by (simp add: calculateRetirement_results)
  have near: "\<bar>of_int \<lfloor>x + 1 / 2\<rfloor> - x\<bar> \<le> 1 / 2" for x :: real
    by linarith
  show ?thesis
    using near [of t] near [of a] near [of "\<bar>g\<bar>"] by (simp add: r)
qed

theorem C8_outputs_rounded_half_up_witness:
  "totalSavings (ONE_YEAR_INPUTS (102051 / 107) 0 False) = Fin (2001 / 2)
   \<and> totalAnnualIncome (ONE_YEAR_INPUTS (102051 / 107) 0 False) = Fin (2001 / 50)
   \<and> shortfall (ONE_YEAR_INPUTS (102051 / 107) 0 False) = Fin (- 2001 / 50)
   \<and> results (calculateRetirement
        \<lparr>inputs = ONE_YEAR_INPUTS (102051 / 107) 0 False, results = None\<rparr>)
     = Some \<lparr>result_totalSavings = Fin 1001, result_annualIncome = Fin 40,
             result_shortfall = Fin 40, result_isShortfall = False\<rparr>"
  using C8_outputs_rounded_half_up
    [of "\<lparr>inputs = ONE_YEAR_INPUTS (102051 / 107) 0 False, results = None\<rparr>" _
      "2001 / 2" "2001 / 50" "- 2001 / 50"]
  by (simp add: calculateRetirement_results ONE_YEAR_shortfall ONE_YEAR_totalAnnualIncome
        ONE_YEAR_totalSavings)

text \<open>
  C10. \<open>isShortfall\<close> is the sign of the unrounded gap and the reported amount is rounded
  afterwards: whenever the unrounded gap lies strictly between 0 and one half, the result
  has \<open>isShortfall\<close> true and a reported amount of 0; and there is such an input record.
\<close>

theorem C10_shortfall_flag_with_zero_amount:
  "(\<forall>s g r. shortfall (inputs s) = Fin g \<and> 0 < g \<and> g < 1 / 2
        \<and> results (calculateRetirement s) = Some r \<longrightarrow>
        result_isShortfall r \<and> result_shortfall r = Fin 0)
   \<and> (\<exists>s g r. shortfall (inputs s) = Fin g \<and> 0 < g \<and> g < 1 / 2
        \<and> results (calculateRetirement s) = Some r
        \<and> result_isShortfall r \<and> result_shortfall r = Fin 0)"
proof (rule conjI)
  show "\<forall>s g r. shortfall (inputs s) = Fin g \<and> 0 < g \<and> g < 1 / 2
        \<and> results (calculateRetirement s) = Some r \<longrightarrow>
        result_isShortfall r \<and> result_shortfall r = Fin 0"
  proof (intro allI impI)
    fix s g r
    assume h: "shortfall (inputs s) = Fin g \<and> 0 < g \<and> g < 1 / 2
        \<and> results (calculateRetirement s) = Some r"
    then have "\<lfloor>\<bar>g\<bar> + 1 / 2\<rfloor> = 0"
      by linarith
    with h show "result_isShortfall r \<and> result_shortfall r = Fin 0"
      by (auto simp add: calculateRetirement_results)
  qed
next
  let ?s = "\<lparr>inputs = RETIRE_NOW_INPUTS 10700 500 (1713 / 4) False, results = None\<rparr>"
  have g: "shortfall (inputs ?s) = Fin (1 / 4)"
    by (simp add: RETIRE_NOW_shortfall)
  have "results (calculateRetirement ?s)
          = Some \<lparr>result_totalSavings = Fin 10700, result_annualIncome = Fin 428,
                  result_shortfall = Fin 0, result_isShortfall = True\<rparr>"
    by (simp add: calculateRetirement_results RETIRE_NOW_shortfall RETIRE_NOW_totalAnnualIncome
        RETIRE_NOW_totalSavings)
  with g show "\<exists>s g r. shortfall (inputs s) = Fin g \<and> 0 < g \<and> g < 1 / 2
        \<and> results (calculateRetirement s) = Some r
        \<and> result_isShortfall r \<and> result_shortfall r = Fin 0"
    by (intro exI [of _ ?s] exI [of _ "1 / 4"]) simp
qed

theorem C10_shortfall_flag_with_zero_amount_witness:
  "shortfall (inputs \<lparr>inputs = RETIRE_NOW_INPUTS 10700 500 (1713 / 4) False, results = None\<rparr>)
     = Fin (1 / 4)
   \<and> results (calculateRetirement
        \<lparr>inputs = RETIRE_NOW_INPUTS 10700 500 (1713 / 4) False, results = None\<rparr>)
     = Some \<lparr>result_totalSavings = Fin 10700, result_annualIncome = Fin 428,
             result_shortfall = Fin 0, result_isShortfall = True\<rparr>"
  using C10_shortfall_flag_with_zero_amount [THEN conjunct1, rule_format,
      of "\<lparr>inputs = RETIRE_NOW_INPUTS 10700 500 (1713 / 4) False, results = None\<rparr>" "1 / 4"
         "\<lparr>result_totalSavings = Fin 10700, result_annualIncome = Fin 428,
             result_shortfall = Fin 0, result_isShortfall = True\<rparr>"]
  by (simp add: calculateRetirement_results RETIRE_NOW_shortfall RETIRE_NOW_totalAnnualIncome
        RETIRE_NOW_totalSavings)

end
